theory Spec2Isabelle
  imports Main
begin

section \<open>The TGI endpoint construct of infra/components.py\<close>

text \<open>
  The module declares two pydantic models (\<open>HFVars\<close>, \<open>Props\<close>), the helper
  \<open>generate_unique_id\<close> and the construct \<open>TgiLlm\<close>, whose methods assemble a
  container definition, a model, an endpoint configuration and an endpoint.

  Conventions of the embedding:
  \<^item> an exception is a value of \<open>error\<close>, and a function that may raise returns
    \<open>error + 'a\<close> with \<open>Inl\<close> for the exception;
  \<^item> \<open>self\<close> is a record passed in and returned updated; an attribute that has not
    been assigned yet is \<open>None\<close>, and reading it raises \<open>AttributeError\<close>;
  \<^item> the classes of \<open>aws_cdk\<close> are outside the repository; they are modelled
    by their documented signatures, with the arguments they reject;
  \<^item> the two sources of randomness (\<open>uuid4\<close> and \<open>random.choice\<close>) are inputs:
    the text \<open>str(uuid4())\<close> and the sequence of raw draws.
\<close>

subsection \<open>Exceptions and values\<close>

datatype error =
    AttributeError string   \<comment> \<open>the attribute that was read\<close>
  | IndexError
  | ValidationError "string list"   \<comment> \<open>the locations pydantic reports as missing\<close>
  | TypeError string   \<comment> \<open>the argument whose type was rejected\<close>
  | RuntimeError "string list"   \<comment> \<open>the required properties a library struct lacks\<close>

subsection \<open>Identity suffix\<close>

text \<open>
  \<open>random.choice(seq)\<close> raises \<open>IndexError\<close> on an empty sequence and otherwise
  returns \<open>seq[randbelow(len(seq))]\<close>; \<open>r\<close> is the raw draw.
\<close>

definition random_choice :: "string \<Rightarrow> nat \<Rightarrow> error + char" where
  "random_choice characters r =
     (if characters = [] then Inl IndexError
      else Inr (characters ! (r mod length characters)))"

text \<open>
  The generator expression \<open>random.choice(characters) for _ in range(chars)\<close>:
  \<open>k\<close> iterations are left, \<open>i\<close> draws have been consumed.
\<close>

fun sample_chars :: "nat \<Rightarrow> string \<Rightarrow> (nat \<Rightarrow> nat) \<Rightarrow> nat \<Rightarrow> error + string" where
  "sample_chars 0 characters rnd i = Inr []"
| "sample_chars (Suc k) characters rnd i =
     (case random_choice characters (rnd i) of
        Inl e \<Rightarrow> Inl e
      | Inr c \<Rightarrow>
          (case sample_chars k characters rnd (Suc i) of
             Inl e \<Rightarrow> Inl e
           | Inr s \<Rightarrow> Inr (c # s)))"

text \<open>
  \<open>def generate_unique_id(chars=10)\<close>. The argument is \<open>None\<close> when the caller
  omits it. \<open>range(chars)\<close> is empty for a negative \<open>chars\<close>, hence \<open>nat\<close>.
  \<open>characters\<close> is \<open>str(uuid4())\<close>.
\<close>

definition generate_unique_id :: "int option \<Rightarrow> string \<Rightarrow> (nat \<Rightarrow> nat) \<Rightarrow> error + string" where
  "generate_unique_id chars_arg characters rnd =
     (let chars = (case chars_arg of None \<Rightarrow> 10 | Some c \<Rightarrow> c)
      in sample_chars (nat chars) characters rnd 0)"

subsection \<open>The pydantic models\<close>

text \<open>\<open>class HFVars(BaseModel)\<close>: one required field.\<close>

record HFVars =
  HF_MODEL_ID :: string

text \<open>\<open>class Props(BaseModel)\<close>: the six declared fields, in declaration order.\<close>

record Props =
  instance_type :: string
  environment_vars :: HFVars
  s3_model_path :: "string option"
  tag :: string
  start_up_health_check_seconds :: int
  repo_name :: string

text \<open>
  The keyword arguments a caller gives to \<open>Props(...)\<close>: \<open>None\<close> is an argument
  that was not given (for \<open>s3_model_path\<close> also an explicit \<open>None\<close>, which is its
  default). \<open>environment_vars\<close> is given as a dictionary. The types keep to
  well-typed arguments, so pydantic's coercion of other types is outside the model.
\<close>

record RawProps =
  raw_instance_type :: "string option"
  raw_environment_vars :: "(string \<rightharpoonup> string) option"
  raw_s3_model_path :: "string option"
  raw_tag :: "string option"
  raw_start_up_health_check_seconds :: "int option"
  raw_repo_name :: "string option"

text \<open>
  Validation of \<open>HFVars\<close>: \<open>HF_MODEL_ID\<close> is required; the model sets no
  \<open>extra\<close> policy, so pydantic's default applies and every other key is ignored.
  \<open>Inl\<close> carries the names of the missing fields.
\<close>

definition HFVars_validate :: "(string \<rightharpoonup> string) \<Rightarrow> string list + HFVars" where
  "HFVars_validate d =
     (case d ''HF_MODEL_ID'' of
        None \<Rightarrow> Inl [''HF_MODEL_ID'']
      | Some v \<Rightarrow> Inr \<lparr>HF_MODEL_ID = v\<rparr>)"

definition tag_missing :: "RawProps \<Rightarrow> string list" where
  "tag_missing raw = (case raw_tag raw of None \<Rightarrow> [''tag''] | Some t \<Rightarrow> [])"

text \<open>
  Validation of \<open>Props\<close>. \<open>environment_vars\<close> and \<open>tag\<close> have no default and are
  required; the other four fields fall back to their \<open>Field(default=...)\<close>. No field
  carries a constraint (\<open>gt\<close>, \<open>min_length\<close>, a validator), so a given value is
  stored as it is. pydantic reports all missing locations together, in field order.
\<close>

definition Props_validate :: "RawProps \<Rightarrow> error + Props" where
  "Props_validate raw =
     (case raw_environment_vars raw of
        None \<Rightarrow> Inl (ValidationError (''environment_vars'' # tag_missing raw))
      | Some d \<Rightarrow>
          (case HFVars_validate d of
             Inl locs \<Rightarrow>
               Inl (ValidationError (map (\<lambda>l. ''environment_vars.'' @ l) locs @ tag_missing raw))
           | Inr vars \<Rightarrow>
               (case raw_tag raw of
                  None \<Rightarrow> Inl (ValidationError [''tag''])
                | Some t \<Rightarrow>
                    Inr \<lparr>instance_type =
                           (case raw_instance_type raw of None \<Rightarrow> ''ml.g5.2xlarge'' | Some i \<Rightarrow> i),
                         environment_vars = vars,
                         s3_model_path = raw_s3_model_path raw,
                         tag = t,
                         start_up_health_check_seconds =
                           (case raw_start_up_health_check_seconds raw of None \<Rightarrow> 300 | Some n \<Rightarrow> n),
                         repo_name =
                           (case raw_repo_name raw of
                              None \<Rightarrow> ''huggingface-pytorch-inference''
                            | Some r \<Rightarrow> r)\<rparr>)))"

text \<open>
  Reading \<open>self.props.name\<close>. \<open>Props\<close> declares the six fields above and no
  field \<open>name\<close>, and an undeclared keyword argument is ignored by pydantic, so no
  \<open>Props\<close> object has this attribute: the read raises \<open>AttributeError\<close>.
\<close>

definition Props_name :: "Props \<Rightarrow> error + string" where
  "Props_name p = Inl (AttributeError ''name'')"

subsection \<open>The library: aws_cdk\<close>

text \<open>
  The classes of \<open>aws_cdk\<close> and \<open>aws_cdk.aws_sagemaker_alpha\<close> are not part of
  the repository. Each is modelled by its documented signature: the arguments it
  accepts, what it rejects, and what its attributes read back.
\<close>

text \<open>\<open>ContainerImage.from_dlc(repository_name, tag)\<close>: two strings.\<close>

datatype ContainerImage = from_dlc string string

text \<open>\<open>ModelData.from_asset(path)\<close>: a string.\<close>

datatype ModelData = from_asset string

text \<open>
  A value given as the argument \<open>environment\<close>: a mapping from strings to strings,
  or an object of the pydantic model \<open>HFVars\<close>, which is not a mapping.
\<close>

datatype environment_arg = EnvMapping "string \<rightharpoonup> string" | EnvObject HFVars

text \<open>
  \<open>ContainerDefinition\<close> is a struct with the properties \<open>image\<close>,
  \<open>environment\<close> (\<open>Optional[Mapping[str, str]]\<close>) and \<open>model_data\<close>
  (\<open>Optional[ModelData]\<close>).
\<close>

record ContainerDefinition =
  cd_image :: ContainerImage
  environment :: "string \<rightharpoonup> string"
  model_data :: "ModelData option"

text \<open>
  \<open>ContainerDefinition(image=..., environment=...)\<close>: the constructor checks the type
  of each argument and raises \<open>TypeError\<close> for an \<open>environment\<close> that is not a
  mapping. \<open>model_data\<close> is not given and is \<open>None\<close>.
\<close>

definition ContainerDefinition_new :: "ContainerImage \<Rightarrow> environment_arg \<Rightarrow> error + ContainerDefinition" where
  "ContainerDefinition_new img env =
     (case env of
        EnvMapping m \<Rightarrow> Inr \<lparr>cd_image = img, environment = m, model_data = None\<rparr>
      | EnvObject v \<Rightarrow> Inl (TypeError ''environment''))"

text \<open>
  The assignment \<open>container_definition.model_data = ...\<close>: the properties of a struct
  are read-only (they have no setter), so the assignment raises \<open>AttributeError\<close>.
\<close>

definition ContainerDefinition_set_model_data ::
  "ContainerDefinition \<Rightarrow> ModelData \<Rightarrow> error + ContainerDefinition" where
  "ContainerDefinition_set_model_data cd md = Inl (AttributeError ''model_data'')"

text \<open>
  The values that occur in the production variant dictionary: strings, integers, and
  tokens. A token stands for an attribute of a resource (construct id, attribute) that
  is resolved at deployment.
\<close>

datatype pyval = PyStr string | PyInt int | PyToken string string

text \<open>\<open>Model(scope, id, model_name=..., containers=[...])\<close>.\<close>

record Model =
  m_id :: string
  m_model_name :: string
  containers :: "ContainerDefinition list"

text \<open>The attribute \<open>model.model_name\<close> reads back as a token, not as the given name.\<close>

definition Model_model_name :: "Model \<Rightarrow> pyval" where
  "Model_model_name m = PyToken (m_id m) ''model_name''"

text \<open>
  \<open>EndpointConfig(scope, id, endpoint_config_name=..., instance_production_variants=[...])\<close>.
  A variant is an \<open>InstanceProductionVariantProps\<close>, given as such or as a dictionary
  of its properties; the properties \<open>model\<close> and \<open>variantName\<close> are required.
\<close>

record EndpointConfig =
  ec_id :: string
  ec_endpoint_config_name :: string
  instance_production_variants :: "(string \<times> pyval) list list"

text \<open>The required properties that a variant dictionary lacks.\<close>

definition variant_missing :: "(string \<times> pyval) list \<Rightarrow> string list" where
  "variant_missing v = filter (\<lambda>k. map_of v k = None) [''model'', ''variantName'']"

text \<open>The constructor raises when a variant lacks a required property.\<close>

definition EndpointConfig_new ::
  "string \<Rightarrow> string \<Rightarrow> (string \<times> pyval) list list \<Rightarrow> error + EndpointConfig" where
  "EndpointConfig_new cid name variants =
     (case concat (map variant_missing variants) of
        [] \<Rightarrow> Inr \<lparr>ec_id = cid, ec_endpoint_config_name = name,
                    instance_production_variants = variants\<rparr>
      | k # ks \<Rightarrow> Inl (RuntimeError (k # ks)))"

text \<open>\<open>Endpoint(scope, id, endpoint_name=..., endpoint_config=...)\<close>.\<close>

record Endpoint =
  ep_id :: string
  ep_endpoint_name :: string
  ep_endpoint_config :: EndpointConfig

text \<open>The attribute \<open>endpoint.endpoint_name\<close> reads back as a token as well.\<close>

definition Endpoint_endpoint_name :: "Endpoint \<Rightarrow> pyval" where
  "Endpoint_endpoint_name ep = PyToken (ep_id ep) ''endpoint_name''"

text \<open>\<open>CfnOutput(scope, id, value=...)\<close>.\<close>

record CfnOutput =
  out_id :: string
  out_value :: pyval

subsection \<open>The construct\<close>

text \<open>
  The attributes of a \<open>TgiLlm\<close> object. The first five are assigned by
  \<open>__init__\<close>; the next four by the build steps; \<open>outputs\<close> are the \<open>CfnOutput\<close>
  objects created under the construct.
\<close>

record TgiLlm =
  construct_id :: string
  props :: Props
  unique_id :: string
  model_name :: string
  endpoint_name :: string
  endpoint_config_name :: string
  container_definition :: "ContainerDefinition option"
  model :: "Model option"
  endpoint_config :: "EndpointConfig option"
  endpoint :: "Endpoint option"
  outputs :: "CfnOutput list"

text \<open>
  The body of \<open>TgiLlm.__init__(scope, cid, props)\<close>, with the read of
  \<open>self.props.name\<close> as the parameter \<open>read_name\<close>. The suffix is generated first
  (line 67); then each of the three f-strings reads the attribute (lines 68 to 72), and
  the first read that raises ends the constructor.
\<close>

definition TgiLlm_init_with ::
  "(Props \<Rightarrow> error + string) \<Rightarrow> string \<Rightarrow> Props \<Rightarrow> string \<Rightarrow> (nat \<Rightarrow> nat) \<Rightarrow> error + TgiLlm" where
  "TgiLlm_init_with read_name cid p characters rnd =
     (case generate_unique_id None characters rnd of
        Inl e \<Rightarrow> Inl e
      | Inr uid \<Rightarrow>
          (case read_name p of
             Inl e \<Rightarrow> Inl e
           | Inr n1 \<Rightarrow>
               (case read_name p of
                  Inl e \<Rightarrow> Inl e
                | Inr n2 \<Rightarrow>
                    (case read_name p of
                       Inl e \<Rightarrow> Inl e
                     | Inr n3 \<Rightarrow>
                         Inr \<lparr>construct_id = cid,
                              props = p,
                              unique_id = uid,
                              model_name = n1 @ ''-'' @ uid,
                              endpoint_name = n2 @ ''-endpoint-'' @ uid,
                              endpoint_config_name = n3 @ ''-config-'' @ uid,
                              container_definition = None,
                              model = None,
                              endpoint_config = None,
                              endpoint = None,
                              outputs = []\<rparr>))))"

text \<open>The constructor as the source has it: \<open>props\<close> is a \<open>Props\<close> object.\<close>

definition TgiLlm_init :: "string \<Rightarrow> Props \<Rightarrow> string \<Rightarrow> (nat \<Rightarrow> nat) \<Rightarrow> error + TgiLlm" where
  "TgiLlm_init = TgiLlm_init_with Props_name"

text \<open>The attributes that carry the identity of the resource set.\<close>

definition identity_of :: "TgiLlm \<Rightarrow> string \<times> string \<times> string \<times> string" where
  "identity_of self =
     (unique_id self, model_name self, endpoint_config_name self, endpoint_name self)"

text \<open>
  \<open>_set_container\<close>. Line 87 gives the \<open>HFVars\<close> object of the configuration as
  \<open>environment\<close>; the test \<open>if self.props.s3_model_path:\<close> (line 90) is on
  truthiness (\<open>None\<close> and the empty string are both false); line 92 assigns to the property \<open>model_data\<close> of the struct. An
  exception ends the method.
\<close>

definition set_container :: "TgiLlm \<Rightarrow> error + TgiLlm" where
  "set_container self =
     (let container_image = from_dlc (repo_name (props self)) (tag (props self))
      in case ContainerDefinition_new container_image
                (EnvObject (environment_vars (props self))) of
           Inl e \<Rightarrow> Inl e
         | Inr cd \<Rightarrow>
             (case s3_model_path (props self) of
                None \<Rightarrow> Inr (self\<lparr>container_definition := Some cd\<rparr>)
              | Some path \<Rightarrow>
                  if path = [] then Inr (self\<lparr>container_definition := Some cd\<rparr>)
                  else
                    (case ContainerDefinition_set_model_data cd (from_asset path) of
                       Inl e \<Rightarrow> Inl e
                     | Inr cd' \<Rightarrow> Inr (self\<lparr>container_definition := Some cd'\<rparr>))))"

text \<open>\<open>_set_model\<close>: reads \<open>self.container_definition\<close>.\<close>

definition set_model :: "TgiLlm \<Rightarrow> error + TgiLlm" where
  "set_model self =
     (case container_definition self of
        None \<Rightarrow> Inl (AttributeError ''container_definition'')
      | Some cd \<Rightarrow>
          Inr (self\<lparr>model :=
                 Some \<lparr>m_id = ''TgiModel'',
                       m_model_name = model_name self,
                       containers = [cd]\<rparr>\<rparr>))"

text \<open>
  The dictionary literal of \<open>_set_config\<close>, the one production variant, as an
  association list in the order of the source; \<open>mn\<close> is what
  \<open>self.model.model_name\<close> reads.
\<close>

definition production_variant :: "TgiLlm \<Rightarrow> pyval \<Rightarrow> (string \<times> pyval) list" where
  "production_variant self mn =
     [(''modelName'', mn),
      (''variantName'', PyStr ''primary''),
      (''initialVariantWeight'', PyStr ''1.0''),
      (''initialInstanceCount'', PyInt 1),
      (''instanceType'', PyStr (instance_type (props self))),
      (''containerStartupHealthCheckTimeoutInSeconds'',
         PyInt (start_up_health_check_seconds (props self)))]"

text \<open>
  \<open>_set_config\<close>: reads \<open>self.model\<close>, builds the list with the one dictionary and
  gives it to \<open>EndpointConfig\<close>.
\<close>

definition set_config :: "TgiLlm \<Rightarrow> error + TgiLlm" where
  "set_config self =
     (case model self of
        None \<Rightarrow> Inl (AttributeError ''model'')
      | Some m \<Rightarrow>
          (case EndpointConfig_new ''TgiEndpointConfig'' (endpoint_config_name self)
                  [production_variant self (Model_model_name m)] of
             Inl e \<Rightarrow> Inl e
           | Inr ec \<Rightarrow> Inr (self\<lparr>endpoint_config := Some ec\<rparr>)))"

text \<open>\<open>_set_endpoint\<close>: reads \<open>self.endpoint_config\<close>.\<close>

definition set_endpoint :: "TgiLlm \<Rightarrow> error + TgiLlm" where
  "set_endpoint self =
     (case endpoint_config self of
        None \<Rightarrow> Inl (AttributeError ''endpoint_config'')
      | Some ec \<Rightarrow>
          Inr (self\<lparr>endpoint :=
                 Some \<lparr>ep_id = ''TgiEndpoint'',
                       ep_endpoint_name = endpoint_name self,
                       ep_endpoint_config = ec\<rparr>\<rparr>))"

text \<open>
  \<open>run_endpoint_build\<close>: the four steps in the order of the source; an exception
  in one step ends the method. Then \<open>CfnOutput(self, "EndpointName", value=self.endpoint.endpoint_name)\<close>.
\<close>

definition run_endpoint_build :: "TgiLlm \<Rightarrow> error + TgiLlm" where
  "run_endpoint_build self =
     (case set_container self of
        Inl e \<Rightarrow> Inl e
      | Inr s1 \<Rightarrow>
          (case set_model s1 of
             Inl e \<Rightarrow> Inl e
           | Inr s2 \<Rightarrow>
               (case set_config s2 of
                  Inl e \<Rightarrow> Inl e
                | Inr s3 \<Rightarrow>
                    (case set_endpoint s3 of
                       Inl e \<Rightarrow> Inl e
                     | Inr s4 \<Rightarrow>
                         (case endpoint s4 of
                            None \<Rightarrow> Inl (AttributeError ''endpoint'')
                          | Some ep \<Rightarrow>
                              Inr (s4\<lparr>outputs := outputs s4 @
                                     [\<lparr>out_id = ''EndpointName'',
                                       out_value = Endpoint_endpoint_name ep\<rparr>]\<rparr>))))))"

text \<open>
  Modelled from the spec: the caller that turns a raw configuration into a build is not
  in the source. Section 2 of the specification gives its control flow: configuration
  in, validation, name generation, the sequential construction of the nodes, the
  output. Here: \<open>TgiLlm(scope, cid, Props(**raw)).run_endpoint_build()\<close>.
\<close>

definition build :: "string \<Rightarrow> RawProps \<Rightarrow> string \<Rightarrow> (nat \<Rightarrow> nat) \<Rightarrow> error + TgiLlm" where
  "build cid raw characters rnd =
     (case Props_validate raw of
        Inl e \<Rightarrow> Inl e
      | Inr p \<Rightarrow>
          (case TgiLlm_init cid p characters rnd of
             Inl e \<Rightarrow> Inl e
           | Inr self \<Rightarrow> run_endpoint_build self))"

subsection \<open>Example objects\<close>

text \<open>The configuration \<open>{tag: "2.0.1", environment_vars: {HF_MODEL_ID: "gpt2"}}\<close>.\<close>

definition scenario_raw :: RawProps where
  "scenario_raw =
     \<lparr>raw_instance_type = None,
      raw_environment_vars = Some [''HF_MODEL_ID'' \<mapsto> ''gpt2''],
      raw_s3_model_path = None,
      raw_tag = Some ''2.0.1'',
      raw_start_up_health_check_seconds = None,
      raw_repo_name = None\<rparr>"

definition scenario_props :: Props where
  "scenario_props =
     \<lparr>instance_type = ''ml.g5.2xlarge'',
      environment_vars = \<lparr>HF_MODEL_ID = ''gpt2''\<rparr>,
      s3_model_path = None,
      tag = ''2.0.1'',
      start_up_health_check_seconds = 300,
      repo_name = ''huggingface-pytorch-inference''\<rparr>"

text \<open>A construct object that holds the configuration \<open>p\<close> and has run no step yet.\<close>

definition builder_with :: "Props \<Rightarrow> TgiLlm" where
  "builder_with p =
     \<lparr>construct_id = ''Llm'',
      props = p,
      unique_id = ''bdb7d296-9'',
      model_name = ''llm-bdb7d296-9'',
      endpoint_name = ''llm-endpoint-bdb7d296-9'',
      endpoint_config_name = ''llm-config-bdb7d296-9'',
      container_definition = None,
      model = None,
      endpoint_config = None,
      endpoint = None,
      outputs = []\<rparr>"

section \<open>Properties\<close>

subsection \<open>Identity suffix\<close>

lemma sample_chars_ok:
  "characters \<noteq> [] \<Longrightarrow>
   \<exists>s. sample_chars k characters rnd i = Inr s \<and> length s = k \<and> set s \<subseteq> set characters"
proof (induction k arbitrary: i)
  case 0
  show ?case by simp
next
  case (Suc k)
  from Suc.IH [OF Suc.prems, of "Suc i"] obtain s where
    s: "sample_chars k characters rnd (Suc i) = Inr s" "length s = k" "set s \<subseteq> set characters"
    by blast
  from Suc.prems have "characters ! (rnd i mod length characters) \<in> set characters"
    by simp
  with s Suc.prems show ?case
    by (simp add: random_choice_def)
qed

text \<open>A negative argument gives the empty suffix: \<open>range\<close> of it is empty.\<close>

lemma generate_unique_id_negative:
  "n < 0 \<Longrightarrow> generate_unique_id (Some n) characters rnd = Inr []"
  by (simp add: generate_unique_id_def)

subsection \<open>What each step does\<close>

text \<open>
  \<open>_set_container\<close> raises for every construct object: the configuration holds an
  \<open>HFVars\<close> object, and \<open>ContainerDefinition\<close> rejects it as \<open>environment\<close> before
  the test on \<open>s3_model_path\<close> is reached.
\<close>

lemma set_container_raises: "set_container self = Inl (TypeError ''environment'')"
  by (simp add: set_container_def ContainerDefinition_new_def)

lemma set_model_result:
  "container_definition self = Some cd \<Longrightarrow>
   set_model self =
     Inr (self\<lparr>model := Some \<lparr>m_id = ''TgiModel'', m_model_name = model_name self,
                                containers = [cd]\<rparr>\<rparr>)"
  by (simp add: set_model_def)

text \<open>
  The dictionary that \<open>_set_config\<close> builds holds the entries of one variant under the
  keys of the source, and it lacks the required property \<open>model\<close>.
\<close>

lemma production_variant_entries:
  "map_of (production_variant self mn) ''initialVariantWeight'' = Some (PyStr ''1.0'') \<and>
   map_of (production_variant self mn) ''initialInstanceCount'' = Some (PyInt 1) \<and>
   map_of (production_variant self mn) ''instanceType'' =
     Some (PyStr (instance_type (props self))) \<and>
   map_of (production_variant self mn) ''containerStartupHealthCheckTimeoutInSeconds'' =
     Some (PyInt (start_up_health_check_seconds (props self)))"
  by (simp add: production_variant_def)

lemma production_variant_missing: "variant_missing (production_variant self mn) = [''model'']"
  by (simp add: variant_missing_def production_variant_def)

lemma set_config_raises:
  "model self = Some m \<Longrightarrow> set_config self = Inl (RuntimeError [''model''])"
  by (simp add: set_config_def EndpointConfig_new_def production_variant_missing)

lemma set_endpoint_result:
  "endpoint_config self = Some ec \<Longrightarrow>
   set_endpoint self =
     Inr (self\<lparr>endpoint := Some \<lparr>ep_id = ''TgiEndpoint'', ep_endpoint_name = endpoint_name self,
                                   ep_endpoint_config = ec\<rparr>\<rparr>)"
  by (simp add: set_endpoint_def)

lemma run_endpoint_build_raises: "run_endpoint_build self = Inl (TypeError ''environment'')"
  by (simp add: run_endpoint_build_def set_container_raises)

text \<open>The steps that return leave the identity attributes as they were.\<close>

lemma set_model_keeps_identity:
  "set_model self = Inr self' \<Longrightarrow> identity_of self' = identity_of self"
  by (auto simp: set_model_def identity_of_def split: option.splits)

lemma set_endpoint_keeps_identity:
  "set_endpoint self = Inr self' \<Longrightarrow> identity_of self' = identity_of self"
  by (auto simp: set_endpoint_def identity_of_def split: option.splits)

subsection \<open>The constructor\<close>

lemma scenario_validates: "Props_validate scenario_raw = Inr scenario_props"
  by (simp add: Props_validate_def HFVars_validate_def scenario_raw_def scenario_props_def)

text \<open>
  Had the read of the name succeeded, the three names would embed the one suffix that
  \<open>generate_unique_id\<close> returned.
\<close>

lemma TgiLlm_init_with_names:
  assumes "characters \<noteq> []" and "read_name p = Inr n"
  shows "\<exists>self uid.
           TgiLlm_init_with read_name cid p characters rnd = Inr self \<and>
           generate_unique_id None characters rnd = Inr uid \<and>
           unique_id self = uid \<and>
           model_name self = n @ ''-'' @ uid \<and>
           endpoint_name self = n @ ''-endpoint-'' @ uid \<and>
           endpoint_config_name self = n @ ''-config-'' @ uid"
proof -
  from sample_chars_ok [OF assms(1), of 10 rnd 0] obtain uid where
    "generate_unique_id None characters rnd = Inr uid"
    by (auto simp: generate_unique_id_def)
  with assms(2) show ?thesis
    by (simp add: TgiLlm_init_with_def)
qed

text \<open>With a \<open>Props\<close> object the read raises, whatever the configuration holds.\<close>

lemma TgiLlm_init_raises:
  assumes "characters \<noteq> []"
  shows "TgiLlm_init cid p characters rnd = Inl (AttributeError ''name'')"
proof -
  from sample_chars_ok [OF assms, of 10 rnd 0] obtain uid where
    "generate_unique_id None characters rnd = Inr uid"
    by (auto simp: generate_unique_id_def)
  then show ?thesis
    by (simp add: TgiLlm_init_def TgiLlm_init_with_def Props_name_def)
qed

lemma TgiLlm_init_never_returns: "isl (TgiLlm_init cid p characters rnd)"
  by (simp add: TgiLlm_init_def TgiLlm_init_with_def Props_name_def split: sum.split)

subsection \<open>Claims\<close>

text \<open>
  Claim C1 says that for every valid configuration the build runs its four steps and
  emits one non-empty endpoint name. The configuration of scenario 1 is valid, and the
  build started from it ends in the constructor: \<open>self.props.name\<close> is read on a
  \<open>Props\<close> object, which has no such field. No step runs and nothing is emitted.
\<close>

theorem build_raises_on_valid_configuration:
  "build ''Llm'' scenario_raw ''3f2b8c1e-9d4a-4f6b-8e21-7c5a0b9d3e14'' (\<lambda>i. 7 * i + 3) =
     Inl (AttributeError ''name'')"
  by (simp add: build_def scenario_validates TgiLlm_init_raises)

text \<open>
  Claim C2. A configuration without \<open>tag\<close>, without \<open>environment_vars\<close>, or whose
  \<open>environment_vars\<close> lack the key \<open>HF_MODEL_ID\<close>, is rejected by validation with a
  non-empty list of missing locations; a build from it ends with this validation error,
  before the constructor and the steps, so it yields no construct object and no node.
\<close>

theorem missing_required_field_fails:
  assumes "raw_tag raw = None \<or> raw_environment_vars raw = None \<or>
           (\<exists>d. raw_environment_vars raw = Some d \<and> d ''HF_MODEL_ID'' = None)"
  shows "\<exists>locs. locs \<noteq> [] \<and> Props_validate raw = Inl (ValidationError locs) \<and>
                build cid raw characters rnd = Inl (ValidationError locs)"
  using assms
  by (auto simp: build_def Props_validate_def HFVars_validate_def tag_missing_def
           split: option.splits)

theorem missing_required_field_fails_witness:
  "raw_tag (scenario_raw\<lparr>raw_tag := None\<rparr>) = None \<and>
   (\<exists>locs. locs \<noteq> [] \<and>
      Props_validate (scenario_raw\<lparr>raw_tag := None\<rparr>) = Inl (ValidationError locs) \<and>
      build ''Llm'' (scenario_raw\<lparr>raw_tag := None\<rparr>) ''3f2b8c1e-9d4a-4f6b-8e21-7c5a0b9d3e14''
        (\<lambda>i. 7 * i + 3) = Inl (ValidationError locs)) \<and>
   raw_environment_vars (scenario_raw\<lparr>raw_environment_vars := Some [''HF_TOKEN'' \<mapsto> ''x'']\<rparr>) =
     Some [''HF_TOKEN'' \<mapsto> ''x''] \<and>
   [''HF_TOKEN'' \<mapsto> ''x''] ''HF_MODEL_ID'' = None \<and>
   (\<exists>locs. locs \<noteq> [] \<and>
      Props_validate (scenario_raw\<lparr>raw_environment_vars := Some [''HF_TOKEN'' \<mapsto> ''x'']\<rparr>) =
        Inl (ValidationError locs) \<and>
      build ''Llm'' (scenario_raw\<lparr>raw_environment_vars := Some [''HF_TOKEN'' \<mapsto> ''x'']\<rparr>)
        ''3f2b8c1e-9d4a-4f6b-8e21-7c5a0b9d3e14'' (\<lambda>i. 7 * i + 3) = Inl (ValidationError locs))"
proof -
  let ?e = "scenario_raw\<lparr>raw_environment_vars := Some [''HF_TOKEN'' \<mapsto> ''x'']\<rparr>"
  have h: "raw_tag (scenario_raw\<lparr>raw_tag := None\<rparr>) = None" by simp
  have e: "raw_environment_vars ?e = Some [''HF_TOKEN'' \<mapsto> ''x'']" by simp
  have k: "[''HF_TOKEN'' \<mapsto> ''x''] ''HF_MODEL_ID'' = None" by simp
  from e k have g: "raw_tag ?e = None \<or> raw_environment_vars ?e = None \<or>
      (\<exists>d. raw_environment_vars ?e = Some d \<and> d ''HF_MODEL_ID'' = None)"
    by blast
  from missing_required_field_fails [of "scenario_raw\<lparr>raw_tag := None\<rparr>", OF disjI1, OF h]
    missing_required_field_fails [OF g] h e k
  show ?thesis by blast
qed

text \<open>
  Claim C3 says that a value \<open>\<le> 0\<close> for \<open>start_up_health_check_seconds\<close> is rejected.
  The field is a plain \<open>int\<close> with a default and no constraint: the configuration of
  scenario 1 with the value 0 validates, and 0 is stored.
\<close>

theorem nonpositive_health_check_accepted:
  "Props_validate (scenario_raw\<lparr>raw_start_up_health_check_seconds := Some 0\<rparr>) =
     Inr (scenario_props\<lparr>start_up_health_check_seconds := 0\<rparr>)"
  by (simp add: Props_validate_def HFVars_validate_def scenario_raw_def scenario_props_def)

text \<open>
  Claim C3, amended. When \<open>start_up_health_check_seconds\<close> is omitted it takes the value
  300; a supplied integer, also one \<open>\<le> 0\<close>, is stored unchanged, and validation does not
  reject the configuration for it.
\<close>

theorem health_check_default_unchecked:
  assumes "raw_tag raw = Some t" and "raw_environment_vars raw = Some d"
    and "d ''HF_MODEL_ID'' = Some v"
  shows "\<exists>p. Props_validate raw = Inr p \<and>
             start_up_health_check_seconds p =
               (case raw_start_up_health_check_seconds raw of None \<Rightarrow> 300 | Some n \<Rightarrow> n)"
  using assms by (simp add: Props_validate_def HFVars_validate_def)

theorem health_check_default_unchecked_witness:
  "raw_tag (scenario_raw\<lparr>raw_start_up_health_check_seconds := Some (- 5)\<rparr>) = Some ''2.0.1'' \<and>
   (\<exists>p. Props_validate (scenario_raw\<lparr>raw_start_up_health_check_seconds := Some (- 5)\<rparr>) = Inr p \<and>
        start_up_health_check_seconds p = - 5) \<and>
   (\<exists>p. Props_validate scenario_raw = Inr p \<and> start_up_health_check_seconds p = 300)"
proof -
  let ?r = "scenario_raw\<lparr>raw_start_up_health_check_seconds := Some (- 5)\<rparr>"
  have t: "raw_tag ?r = Some ''2.0.1''" and t': "raw_tag scenario_raw = Some ''2.0.1''"
    by (simp_all add: scenario_raw_def)
  have e: "raw_environment_vars ?r = Some [''HF_MODEL_ID'' \<mapsto> ''gpt2'']"
    and e': "raw_environment_vars scenario_raw = Some [''HF_MODEL_ID'' \<mapsto> ''gpt2'']"
    by (simp_all add: scenario_raw_def)
  have k: "[''HF_MODEL_ID'' \<mapsto> ''gpt2''] ''HF_MODEL_ID'' = Some ''gpt2''" by simp
  have s: "raw_start_up_health_check_seconds ?r = Some (- 5)"
    and s': "raw_start_up_health_check_seconds scenario_raw = None"
    by (simp_all add: scenario_raw_def)
  from health_check_default_unchecked [OF t e k] health_check_default_unchecked [OF t' e' k]
  show ?thesis unfolding s s' using t by simp
qed

text \<open>
  Claim C4 says that the endpoint configuration node holds exactly one production
  variant with weight 1.0, count 1, the instance type and the timeout of the
  configuration. \<open>_set_config\<close> does build one dictionary with these entries
  (\<open>production_variant_entries\<close>), but under the keys \<open>modelName\<close>,
  \<open>initialVariantWeight\<close> and so on, without the required property \<open>model\<close>:
  \<open>EndpointConfig\<close> rejects it, and no endpoint configuration node is assigned. Here
  on a construct object with the instance type of scenario 3 and a model node.
\<close>

theorem set_config_rejected_by_endpoint_config:
  "set_config ((builder_with (scenario_props\<lparr>instance_type := ''ml.g5.12xlarge''\<rparr>))
      \<lparr>model := Some \<lparr>m_id = ''TgiModel'', m_model_name = ''llm-bdb7d296-9'',
                      containers = []\<rparr>\<rparr>) =
     Inl (RuntimeError [''model''])"
  by (simp add: set_config_raises)

text \<open>
  Claim C5. For a requested length \<open>n\<close> the suffix has exactly \<open>n\<close> characters,
  with \<open>n = 10\<close> when the argument is omitted, and every character of the suffix is a
  character of the UUID text it was sampled from. A length is not negative (\<open>range\<close>
  of a negative number is empty and gives the empty suffix), and the UUID text is not
  empty (\<open>str(uuid4())\<close> has 36 characters).
\<close>

theorem generate_unique_id_length:
  assumes "characters \<noteq> []" and "0 \<le> n"
  shows "(\<exists>s. generate_unique_id (Some n) characters rnd = Inr s \<and>
              int (length s) = n \<and> set s \<subseteq> set characters) \<and>
         (\<exists>s. generate_unique_id None characters rnd = Inr s \<and>
              length s = 10 \<and> set s \<subseteq> set characters)"
proof
  from sample_chars_ok [OF assms(1), of "nat n" rnd 0] assms(2)
  show "\<exists>s. generate_unique_id (Some n) characters rnd = Inr s \<and>
             int (length s) = n \<and> set s \<subseteq> set characters"
    by (auto simp: generate_unique_id_def)
next
  from sample_chars_ok [OF assms(1), of "nat 10" rnd 0]
  show "\<exists>s. generate_unique_id None characters rnd = Inr s \<and>
             length s = 10 \<and> set s \<subseteq> set characters"
    by (auto simp: generate_unique_id_def)
qed

theorem generate_unique_id_length_witness:
  "''3f2b8c1e-9d4a-4f6b-8e21-7c5a0b9d3e14'' \<noteq> [] \<and> (0::int) \<le> 4 \<and>
   (\<exists>s. generate_unique_id (Some 4) ''3f2b8c1e-9d4a-4f6b-8e21-7c5a0b9d3e14''
          (\<lambda>i. 7 * i + 3) = Inr s \<and>
        int (length s) = 4 \<and> set s \<subseteq> set ''3f2b8c1e-9d4a-4f6b-8e21-7c5a0b9d3e14'')"
proof -
  have c: "''3f2b8c1e-9d4a-4f6b-8e21-7c5a0b9d3e14'' \<noteq> []" by simp
  have n: "(0::int) \<le> 4" by simp
  from generate_unique_id_length [OF c n, of "\<lambda>i. 7 * i + 3"] c n
  show ?thesis by blast
qed

text \<open>The same call evaluated: the draws 3, 10, 17, 24 pick these four characters.\<close>

lemma generate_unique_id_example:
  "generate_unique_id (Some 4) ''3f2b8c1e-9d4a-4f6b-8e21-7c5a0b9d3e14'' (\<lambda>i. 7 * i + 3) =
   Inr ''bdb7''"
  by code_simp

text \<open>
  Claim C6 says that the model-data pointer of the container node is set to the
  supplied \<open>s3_model_path\<close>. With a path supplied, \<open>_set_container\<close> raises at line 87,
  before the test on the path: the \<open>HFVars\<close> object is not a mapping. The assignment
  of line 92, were it reached, raises as well: the property has no setter. No container
  node is assigned and no pointer is set.
\<close>

theorem set_container_raises_with_path:
  "set_container (builder_with (scenario_props\<lparr>s3_model_path := Some ''s3://bucket/model''\<rparr>)) =
     Inl (TypeError ''environment'') \<and>
   ContainerDefinition_set_model_data
     \<lparr>cd_image = from_dlc ''huggingface-pytorch-inference'' ''2.0.1'',
      environment = [''HF_MODEL_ID'' \<mapsto> ''gpt2''],
      model_data = None\<rparr>
     (from_asset ''s3://bucket/model'') = Inl (AttributeError ''model_data'')"
  by (simp add: set_container_raises ContainerDefinition_set_model_data_def)

text \<open>
  Claim C7 says that for the configuration of scenario 1 the container node references
  the default repository with the supplied tag and the variant carries
  \<open>ml.g5.2xlarge\<close> and 300. The configuration validates to these defaults, but on a
  construct object that holds it the build raises in its first step, so neither node
  is assigned.
\<close>

theorem defaults_validate_but_build_raises:
  "Props_validate scenario_raw =
     Inr \<lparr>instance_type = ''ml.g5.2xlarge'',
          environment_vars = \<lparr>HF_MODEL_ID = ''gpt2''\<rparr>,
          s3_model_path = None,
          tag = ''2.0.1'',
          start_up_health_check_seconds = 300,
          repo_name = ''huggingface-pytorch-inference''\<rparr> \<and>
   run_endpoint_build (builder_with scenario_props) = Inl (TypeError ''environment'')"
  by (simp add: scenario_validates scenario_props_def run_endpoint_build_raises)

text \<open>
  Claim C8 says that the three names embed the one suffix generated at construction and
  stay fixed afterwards. The constructor would build the three names from one suffix
  (\<open>TgiLlm_init_with_names\<close>), and the steps assign no identity attribute
  (\<open>set_model_keeps_identity\<close>, \<open>set_endpoint_keeps_identity\<close>); but on a \<open>Props\<close>
  object the constructor raises at the first name, after the suffix was generated, so
  no name is ever formed.
\<close>

theorem init_raises_before_names_exist:
  "TgiLlm_init ''Llm'' (scenario_props\<lparr>s3_model_path := Some ''s3://bucket/model''\<rparr>)
     ''3f2b8c1e-9d4a-4f6b-8e21-7c5a0b9d3e14'' (\<lambda>i. 7 * i + 3) =
     Inl (AttributeError ''name'')"
  by (simp add: TgiLlm_init_raises)

text \<open>
  Claim C9 says that with the empty string as \<open>s3_model_path\<close> the container node is
  built with its pointer unset, as with the path omitted. In both cases
  \<open>_set_container\<close> raises at line 87, before the truthiness test of line 90, and
  assigns no container node.
\<close>

theorem set_container_raises_empty_and_omitted:
  "s3_model_path (props (builder_with (scenario_props\<lparr>s3_model_path := Some []\<rparr>))) = Some [] \<and>
   set_container (builder_with (scenario_props\<lparr>s3_model_path := Some []\<rparr>)) =
     Inl (TypeError ''environment'') \<and>
   s3_model_path (props (builder_with scenario_props)) = None \<and>
   set_container (builder_with scenario_props) = Inl (TypeError ''environment'')"
  by (simp add: set_container_raises builder_with_def scenario_props_def)

text \<open>
  Claim C10 says that the environment attached to the container node holds exactly the
  key \<open>HF_MODEL_ID\<close>. Validation does drop every other key: the configuration with the
  extra key \<open>MAX_INPUT_LENGTH\<close> validates to the one without it. But what line 87 gives
  to \<open>ContainerDefinition\<close> is the validated \<open>HFVars\<close> object, not a mapping; it is
  rejected, and no environment is attached to a container node.
\<close>

theorem extra_keys_dropped_but_environment_rejected:
  "Props_validate
     (scenario_raw\<lparr>raw_environment_vars :=
        Some [''HF_MODEL_ID'' \<mapsto> ''gpt2'', ''MAX_INPUT_LENGTH'' \<mapsto> ''1024'']\<rparr>) =
     Inr scenario_props \<and>
   ContainerDefinition_new (from_dlc (repo_name scenario_props) (tag scenario_props))
     (EnvObject (environment_vars scenario_props)) = Inl (TypeError ''environment'') \<and>
   set_container (builder_with scenario_props) = Inl (TypeError ''environment'')"
  by (simp add: Props_validate_def HFVars_validate_def scenario_raw_def scenario_props_def
        ContainerDefinition_new_def set_container_raises)

end
